theory Spec2Isabelle
  imports Main
begin

unbundle bit_operations_syntax

section \<open>Slash-separated paths (Go package \<open>path\<close>)\<close>

text \<open>
  \<open>volume.go\<close> builds every path with \<open>path.Join\<close> and takes paths apart with
  \<open>path.Base\<close> and \<open>path.Dir\<close>. These belong to the Go standard library; they are
  modelled here after their documented behaviour. A Go string is a sequence of bytes,
  as a HOL \<open>string\<close> is.

  \<open>path.Clean\<close> works on the elements between slashes: an empty element and \<open>.\<close>
  are dropped, \<open>..\<close> removes the element before it (at the start of a rooted path it
  is dropped, at the start of a relative path it is kept), anything else is kept. The
  elements kept so far are held as a stack, last element first.
\<close>

fun split_slash :: "string \<Rightarrow> string list" where
  "split_slash [] = [[]]"
| "split_slash (c # cs) =
     (if c = CHR ''/'' then [] # split_slash cs
      else (case split_slash cs of [] \<Rightarrow> [[c]] | e # es \<Rightarrow> (c # e) # es))"

fun join_slash :: "string list \<Rightarrow> string" where
  "join_slash [] = []"
| "join_slash [e] = e"
| "join_slash (e # f # es) = e @ ''/'' @ join_slash (f # es)"

definition clean_step :: "bool \<Rightarrow> string list \<Rightarrow> string \<Rightarrow> string list" where
  "clean_step rooted stk e =
     (if e = [] \<or> e = ''.'' then stk
      else if e = ''..'' then
        (case stk of
           [] \<Rightarrow> if rooted then [] else [''..'']
         | t # ts \<Rightarrow> if t = ''..'' then ''..'' # stk else ts)
      else e # stk)"

definition path_Clean :: "string \<Rightarrow> string" where
  "path_Clean p =
     (if p = [] then ''.''
      else
        let rooted = (hd p = CHR ''/'');
            stk = foldl (clean_step rooted) [] (split_slash p)
        in if rooted then CHR ''/'' # join_slash (rev stk)
           else if stk = [] then ''.''
           else join_slash (rev stk))"

text \<open>\<open>path.Join\<close>: empty elements are ignored, the rest is joined with slashes and
  cleaned; when every element is empty the result is the empty string.\<close>

definition path_Join :: "string list \<Rightarrow> string" where
  "path_Join elem =
     (let es = filter (\<lambda>e. e \<noteq> []) elem
      in if es = [] then [] else path_Clean (join_slash es))"

text \<open>\<open>path.Base\<close>: the last element of the path, trailing slashes removed first;
  \<open>.\<close> for the empty path and \<open>/\<close> for a path of slashes only.\<close>

definition path_Base :: "string \<Rightarrow> string" where
  "path_Base p =
     (if p = [] then ''.''
      else
        let stripped = rev (dropWhile (\<lambda>c. c = CHR ''/'') (rev p));
            last_elem = rev (takeWhile (\<lambda>c. c \<noteq> CHR ''/'') (rev stripped))
        in if last_elem = [] then ''/'' else last_elem)"

text \<open>\<open>path.Dir\<close>: everything up to and including the last slash, cleaned.\<close>

definition path_Dir :: "string \<Rightarrow> string" where
  "path_Dir p = path_Clean (rev (dropWhile (\<lambda>c. c \<noteq> CHR ''/'') (rev p)))"

text \<open>A plain path element: a name as a directory entry has it.\<close>

definition plain_elem :: "string \<Rightarrow> bool" where
  "plain_elem e = (e \<noteq> [] \<and> CHR ''/'' \<notin> set e \<and> e \<noteq> ''.'' \<and> e \<noteq> ''..'')"

section \<open>Volume variants and their paths\<close>

record HostDirectory =
  Path :: string

record EmptyDirectory =
  ed_Name :: string
  ed_PodID :: string
  ed_RootDir :: string

text \<open>The fields \<open>util\<close> and \<open>mounter\<close> of the Go struct are the injected capabilities;
  they are passed to the methods in the environment below.\<close>

record GCEPersistentDisk =
  pd_Name :: string
  pd_PodID :: string
  pd_RootDir :: string
  pd_PDName :: string
  pd_FSType :: string
  pd_Partition :: string
  pd_ReadOnly :: bool

definition HostDirectory_GetPath :: "HostDirectory \<Rightarrow> string" where
  "HostDirectory_GetPath hostVol = Path hostVol"

definition EmptyDirectory_GetPath :: "EmptyDirectory \<Rightarrow> string" where
  "EmptyDirectory_GetPath emptyDir =
     path_Join [ed_RootDir emptyDir, ed_PodID emptyDir, ''volumes'', ''empty'', ed_Name emptyDir]"

definition GCEPersistentDisk_GetPath :: "GCEPersistentDisk \<Rightarrow> string" where
  "GCEPersistentDisk_GetPath PD =
     path_Join [pd_RootDir PD, pd_PodID PD, ''volumes'', ''gce-pd'', pd_Name PD]"

definition makeGlobalPDName :: "string \<Rightarrow> string \<Rightarrow> string" where
  "makeGlobalPDName rootDir devName = path_Join [rootDir, ''global'', ''pd'', devName]"


section \<open>Errors and the outside world\<close>

text \<open>
  \<open>ErrUnsupportedVolumeType\<close> is the package's own sentinel. Every other error comes
  from a system call or an injected capability: \<open>ErrNotExist\<close> stands for the errors
  \<open>os.IsNotExist\<close> recognises, \<open>ErrOther\<close> for the rest.
\<close>

datatype error = ErrUnsupportedVolumeType | ErrNotExist | ErrOther string

definition os_IsNotExist :: "error option \<Rightarrow> bool" where
  "os_IsNotExist err = (err = Some ErrNotExist)"

text \<open>The permission bits \<open>0750\<close> (octal).\<close>

definition mode_0750 :: nat where
  "mode_0750 = 7 * 64 + 5 * 8 + 0"

text \<open>
  The calls that leave the package: the \<open>os\<close> and \<open>ioutil\<close> functions, the two of
  \<open>gcePersistentDiskUtil\<close> and the three of \<open>mounter\<close>. Each takes the
  state of the world \<open>'w\<close> and returns its Go results together with the new state; an
  \<open>error\<close> result is \<open>None\<close> for \<open>nil\<close>. Nothing is assumed about what they do.
  \<open>RefCount\<close> receives the volume as an \<open>Interface\<close>, whose only method is
  \<open>GetPath\<close>, so it is given that path. The two mount flags are constants declared in a
  platform file outside these sources; they are fields of the environment. \<open>uintptr\<close>
  flags are natural numbers (they are only or-ed together), the reference count an
  integer (\<open>refCount--\<close> wraps at the least \<open>int\<close> only, far from the value \<open>1\<close> it
  is compared with).
\<close>

record 'w env =
  os_Stat :: "string \<Rightarrow> 'w \<Rightarrow> error option \<times> 'w"
  os_MkdirAll :: "string \<Rightarrow> nat \<Rightarrow> 'w \<Rightarrow> error option \<times> 'w"
  os_RemoveAll :: "string \<Rightarrow> 'w \<Rightarrow> error option \<times> 'w"
  os_Rename :: "string \<Rightarrow> string \<Rightarrow> 'w \<Rightarrow> error option \<times> 'w"
  ioutil_TempDir :: "string \<Rightarrow> string \<Rightarrow> 'w \<Rightarrow> (string \<times> error option) \<times> 'w"
  util_AttachDisk :: "GCEPersistentDisk \<Rightarrow> 'w \<Rightarrow> error option \<times> 'w"
  util_DetachDisk :: "GCEPersistentDisk \<Rightarrow> string \<Rightarrow> 'w \<Rightarrow> error option \<times> 'w"
  mounter_Mount :: "string \<Rightarrow> string \<Rightarrow> string \<Rightarrow> nat \<Rightarrow> string \<Rightarrow> 'w \<Rightarrow> error option \<times> 'w"
  mounter_Unmount :: "string \<Rightarrow> int \<Rightarrow> 'w \<Rightarrow> error option \<times> 'w"
  mounter_RefCount :: "string \<Rightarrow> 'w \<Rightarrow> (string \<times> int \<times> error option) \<times> 'w"
  MOUNT_MS_BIND :: nat
  MOUNT_MS_RDONLY :: nat

section \<open>HostDirectory and EmptyDirectory\<close>

definition HostDirectory_SetUp :: "HostDirectory \<Rightarrow> 'w \<Rightarrow> error option \<times> 'w" where
  "HostDirectory_SetUp hostVol w = (None, w)"

definition EmptyDirectory_SetUp :: "'w env \<Rightarrow> EmptyDirectory \<Rightarrow> 'w \<Rightarrow> error option \<times> 'w" where
  "EmptyDirectory_SetUp E emptyDir w0 =
     (let path = EmptyDirectory_GetPath emptyDir
      in case os_MkdirAll E path mode_0750 w0 of
           (Some err, w1) \<Rightarrow> (Some err, w1)
         | (None, w1) \<Rightarrow> (None, w1))"

definition renameDirectory :: "'w env \<Rightarrow> string \<Rightarrow> 'w \<Rightarrow> (string \<times> error option) \<times> 'w" where
  "renameDirectory E oldPath w0 =
     (let name = path_Base oldPath
      in case ioutil_TempDir E (path_Dir oldPath) (name @ ''.deleting~'') w0 of
           ((newPath, Some err), w1) \<Rightarrow> (([], Some err), w1)
         | ((newPath, None), w1) \<Rightarrow>
             (case os_Rename E oldPath newPath w1 of
                (Some err, w2) \<Rightarrow> (([], Some err), w2)
              | (None, w2) \<Rightarrow> ((newPath, None), w2)))"

definition EmptyDirectory_TearDown :: "'w env \<Rightarrow> EmptyDirectory \<Rightarrow> 'w \<Rightarrow> error option \<times> 'w" where
  "EmptyDirectory_TearDown E emptyDir w0 =
     (case renameDirectory E (EmptyDirectory_GetPath emptyDir) w0 of
        ((tmpDir, Some err), w1) \<Rightarrow> (Some err, w1)
      | ((tmpDir, None), w1) \<Rightarrow>
          (case os_RemoveAll E tmpDir w1 of
             (Some err, w2) \<Rightarrow> (Some err, w2)
           | (None, w2) \<Rightarrow> (None, w2)))"

section \<open>GCEPersistentDisk\<close>

definition GCEPersistentDisk_SetUp ::
  "'w env \<Rightarrow> GCEPersistentDisk \<Rightarrow> 'w \<Rightarrow> error option \<times> 'w" where
  "GCEPersistentDisk_SetUp E PD w0 =
     (case os_Stat E (GCEPersistentDisk_GetPath PD) w0 of
        (err0, w1) \<Rightarrow>
          if \<not> os_IsNotExist err0 then (None, w1)
          else
            (case util_AttachDisk E PD w1 of
               (Some err, w2) \<Rightarrow> (Some err, w2)
             | (None, w2) \<Rightarrow>
                 (let flags = (if pd_ReadOnly PD then MOUNT_MS_RDONLY E else 0)
                  in (case os_Stat E (GCEPersistentDisk_GetPath PD) w2 of
                        (err1, w3) \<Rightarrow>
                          if os_IsNotExist err1 then
                            (case os_MkdirAll E (GCEPersistentDisk_GetPath PD) mode_0750 w3 of
                               (Some err, w4) \<Rightarrow> (Some err, w4)
                             | (None, w4) \<Rightarrow>
                                 (let globalPDPath =
                                        makeGlobalPDName (pd_RootDir PD) (pd_PDName PD)
                                  in (case mounter_Mount E globalPDPath
                                             (GCEPersistentDisk_GetPath PD) []
                                             (MOUNT_MS_BIND E OR flags) [] w4 of
                                        (Some err, w5) \<Rightarrow>
                                          (case os_RemoveAll E (GCEPersistentDisk_GetPath PD) w5 of
                                             (_, w6) \<Rightarrow> (Some err, w6))
                                      | (None, w5) \<Rightarrow> (None, w5))))
                          else (None, w3)))))"

text \<open>In \<open>TearDown\<close> the second test of the outer \<open>err\<close> (after \<open>os.RemoveAll\<close>) can
  never fire: that variable is \<open>nil\<close> once the first test has passed.\<close>

definition GCEPersistentDisk_TearDown ::
  "'w env \<Rightarrow> GCEPersistentDisk \<Rightarrow> 'w \<Rightarrow> error option \<times> 'w" where
  "GCEPersistentDisk_TearDown E PD w0 =
     (case mounter_RefCount E (GCEPersistentDisk_GetPath PD) w0 of
        ((devicePath, refCount, Some err), w1) \<Rightarrow> (Some err, w1)
      | ((devicePath, refCount, None), w1) \<Rightarrow>
          (case mounter_Unmount E (GCEPersistentDisk_GetPath PD) 0 w1 of
             (Some err, w2) \<Rightarrow> (Some err, w2)
           | (None, w2) \<Rightarrow>
               (let refCount' = refCount - 1
                in (case os_RemoveAll E (GCEPersistentDisk_GetPath PD) w2 of
                      (Some err, w3) \<Rightarrow> (Some err, w3)
                    | (None, w3) \<Rightarrow>
                        if refCount' = 1 then
                          (case util_DetachDisk E PD devicePath w3 of
                             (Some err, w4) \<Rightarrow> (Some err, w4)
                           | (None, w4) \<Rightarrow> (None, w4))
                        else (None, w3)))))"

section \<open>Recording the calls\<close>

text \<open>
  To speak about which calls a method makes, and in which order, an environment is
  wrapped so that every call is appended to a log kept beside the state. The wrapped
  environment answers exactly as the one inside it.
\<close>

datatype call =
    Call_Stat string
  | Call_MkdirAll string nat
  | Call_RemoveAll string
  | Call_Rename string string
  | Call_TempDir string string
  | Call_AttachDisk GCEPersistentDisk
  | Call_DetachDisk GCEPersistentDisk string
  | Call_Mount string string string nat string
  | Call_Unmount string int
  | Call_RefCount string

definition logging :: "call \<Rightarrow> ('w \<Rightarrow> 'r \<times> 'w) \<Rightarrow> 'w \<times> call list \<Rightarrow> 'r \<times> 'w \<times> call list" where
  "logging c f = (\<lambda>(w, cs). case f w of (r, w') \<Rightarrow> (r, w', cs @ [c]))"

definition logged :: "'w env \<Rightarrow> ('w \<times> call list) env" where
  "logged E =
     \<lparr> os_Stat = (\<lambda>p. logging (Call_Stat p) (os_Stat E p)),
       os_MkdirAll = (\<lambda>p m. logging (Call_MkdirAll p m) (os_MkdirAll E p m)),
       os_RemoveAll = (\<lambda>p. logging (Call_RemoveAll p) (os_RemoveAll E p)),
       os_Rename = (\<lambda>p q. logging (Call_Rename p q) (os_Rename E p q)),
       ioutil_TempDir = (\<lambda>d x. logging (Call_TempDir d x) (ioutil_TempDir E d x)),
       util_AttachDisk = (\<lambda>PD. logging (Call_AttachDisk PD) (util_AttachDisk E PD)),
       util_DetachDisk = (\<lambda>PD d. logging (Call_DetachDisk PD d) (util_DetachDisk E PD d)),
       mounter_Mount =
         (\<lambda>s t f fl d. logging (Call_Mount s t f fl d) (mounter_Mount E s t f fl d)),
       mounter_Unmount = (\<lambda>t fl. logging (Call_Unmount t fl) (mounter_Unmount E t fl)),
       mounter_RefCount = (\<lambda>p. logging (Call_RefCount p) (mounter_RefCount E p)),
       MOUNT_MS_BIND = MOUNT_MS_BIND E,
       MOUNT_MS_RDONLY = MOUNT_MS_RDONLY E \<rparr>"

text \<open>A stub environment over a world without state: every call gives a fixed answer.\<close>

record stub =
  stat_r :: "error option"
  mkdir_r :: "error option"
  remove_r :: "error option"
  rename_r :: "error option"
  tempdir_r :: "string \<times> error option"
  attach_r :: "error option"
  detach_r :: "error option"
  mount_r :: "error option"
  unmount_r :: "error option"
  refcount_r :: "string \<times> int \<times> error option"

definition stubEnv :: "stub \<Rightarrow> unit env" where
  "stubEnv s =
     \<lparr> os_Stat = (\<lambda>p w. (stat_r s, w)),
       os_MkdirAll = (\<lambda>p m w. (mkdir_r s, w)),
       os_RemoveAll = (\<lambda>p w. (remove_r s, w)),
       os_Rename = (\<lambda>p q w. (rename_r s, w)),
       ioutil_TempDir = (\<lambda>d x w. (tempdir_r s, w)),
       util_AttachDisk = (\<lambda>PD w. (attach_r s, w)),
       util_DetachDisk = (\<lambda>PD d w. (detach_r s, w)),
       mounter_Mount = (\<lambda>src t f fl d w. (mount_r s, w)),
       mounter_Unmount = (\<lambda>t fl w. (unmount_r s, w)),
       mounter_RefCount = (\<lambda>p w. (refcount_r s, w)),
       MOUNT_MS_BIND = 4096,
       MOUNT_MS_RDONLY = 1 \<rparr>"

definition all_ok :: stub where
  "all_ok =
     \<lparr> stat_r = Some ErrNotExist, mkdir_r = None, remove_r = None, rename_r = None,
       tempdir_r = (''/tmp/x'', None), attach_r = None, detach_r = None, mount_r = None,
       unmount_r = None, refcount_r = (''/dev/sdb'', 2, None) \<rparr>"

section \<open>Which type has which method\<close>

text \<open>
  A Go type satisfies an interface when it declares what the interface asks for. Each
  volume type of \<open>volume.go\<close> declares these, in the order of the file:
\<close>

datatype method_name = GetPath | SetUp | TearDown

datatype volume_type = HostDirectory_type | EmptyDirectory_type | GCEPersistentDisk_type

fun declared_methods :: "volume_type \<Rightarrow> method_name list" where
  "declared_methods HostDirectory_type = [SetUp, GetPath]"
| "declared_methods EmptyDirectory_type = [SetUp, GetPath, TearDown]"
| "declared_methods GCEPersistentDisk_type = [GetPath, SetUp, TearDown]"

text \<open>The methods the interfaces \<open>Builder\<close> (with the embedded \<open>Interface\<close>) and
  \<open>Cleaner\<close> ask for.\<close>

definition Builder_methods :: "method_name list" where
  "Builder_methods = [GetPath, SetUp]"

definition Cleaner_methods :: "method_name list" where
  "Cleaner_methods = [TearDown]"

text \<open>Hence the values a \<open>Builder\<close> and a \<open>Cleaner\<close> can hold.\<close>

datatype Builder =
    Builder_HostDirectory HostDirectory
  | Builder_EmptyDirectory EmptyDirectory
  | Builder_GCEPersistentDisk GCEPersistentDisk

datatype Cleaner =
    Cleaner_EmptyDirectory EmptyDirectory
  | Cleaner_GCEPersistentDisk GCEPersistentDisk


section \<open>The factory\<close>

text \<open>
  Modelled from the spec: the type \<open>api.Volume\<close> is declared in package \<open>api\<close>, outside
  these sources. The spec describes it as a record carrying a name and a source with one
  descriptor among host-directory (a path), empty-directory (no fields) and
  persistent-disk (disk name, filesystem type, integer partition, read-only flag); the
  field names are those \<open>volume.go\<close> reads. A Go pointer that may be \<open>nil\<close> is an
  \<open>option\<close>.
\<close>

record api_HostDirectory =
  api_Path :: string

record api_GCEPersistentDisk =
  api_PDName :: string
  api_FSType :: string
  api_Partition :: int
  api_ReadOnly :: bool

record api_VolumeSource =
  src_HostDirectory :: "api_HostDirectory option"
  src_EmptyDirectory :: "unit option"
  src_GCEPersistentDisk :: "api_GCEPersistentDisk option"

record api_Volume =
  vol_Name :: string
  vol_Source :: "api_VolumeSource option"

text \<open>\<open>strconv.Itoa\<close>: the decimal digits of an integer, with a minus sign when negative.\<close>

fun decimal :: "nat \<Rightarrow> string" where
  "decimal n =
     (if n < 10 then [''0123456789'' ! n]
      else decimal (n div 10) @ [''0123456789'' ! (n mod 10)])"

definition strconv_Itoa :: "int \<Rightarrow> string" where
  "strconv_Itoa i = (if i < 0 then CHR ''-'' # decimal (nat (- i)) else decimal (nat i))"

text \<open>The three constructors read the source descriptor they are called for; where the Go
  code would dereference a \<open>nil\<close> pointer the model has no value (\<open>None\<close>).
  \<open>CreateVolumeBuilder\<close> calls each only after testing its pointer.\<close>

definition createHostDirectory :: "api_Volume \<Rightarrow> HostDirectory option" where
  "createHostDirectory volume =
     (case vol_Source volume of
        None \<Rightarrow> None
      | Some source \<Rightarrow>
          (case src_HostDirectory source of
             None \<Rightarrow> None
           | Some hostDir \<Rightarrow> Some \<lparr> Path = api_Path hostDir \<rparr>))"

definition createEmptyDirectory :: "api_Volume \<Rightarrow> string \<Rightarrow> string \<Rightarrow> EmptyDirectory" where
  "createEmptyDirectory volume podID rootDir =
     \<lparr> ed_Name = vol_Name volume, ed_PodID = podID, ed_RootDir = rootDir \<rparr>"

definition createGCEPersistentDisk ::
  "api_Volume \<Rightarrow> string \<Rightarrow> string \<Rightarrow> (error + GCEPersistentDisk) option" where
  "createGCEPersistentDisk volume podID rootDir =
     (case vol_Source volume of
        None \<Rightarrow> None
      | Some source \<Rightarrow>
          (case src_GCEPersistentDisk source of
             None \<Rightarrow> None
           | Some gce \<Rightarrow>
               let PDName = api_PDName gce;
                   FSType = api_FSType gce;
                   partition0 = strconv_Itoa (api_Partition gce);
                   partition = (if partition0 = ''0'' then [] else partition0);
                   readOnly = api_ReadOnly gce
               in Some (Inr \<lparr> pd_Name = vol_Name volume, pd_PodID = podID, pd_RootDir = rootDir,
                               pd_PDName = PDName, pd_FSType = FSType, pd_Partition = partition,
                               pd_ReadOnly = readOnly \<rparr>)))"

text \<open>\<open>CreateVolumeBuilder\<close> returns a pair \<open>(Builder, error)\<close>: \<open>Inl err\<close> is
  \<open>(nil, err)\<close>, \<open>Inr None\<close> is \<open>(nil, nil)\<close> and \<open>Inr (Some vol)\<close> is \<open>(vol, nil)\<close>.
  The outer \<open>option\<close> only carries the \<open>nil\<close> dereference of the constructors, which
  the tests before each call exclude.\<close>

definition CreateVolumeBuilder ::
  "api_Volume \<Rightarrow> string \<Rightarrow> string \<Rightarrow> (error + Builder option) option" where
  "CreateVolumeBuilder volume podID rootDir =
     (case vol_Source volume of
        None \<Rightarrow> Some (Inr None)
      | Some source \<Rightarrow>
          if src_HostDirectory source \<noteq> None then
            (case createHostDirectory volume of
               None \<Rightarrow> None
             | Some vol \<Rightarrow> Some (Inr (Some (Builder_HostDirectory vol))))
          else if src_EmptyDirectory source \<noteq> None then
            Some (Inr (Some (Builder_EmptyDirectory (createEmptyDirectory volume podID rootDir))))
          else if src_GCEPersistentDisk source \<noteq> None then
            (case createGCEPersistentDisk volume podID rootDir of
               None \<Rightarrow> None
             | Some (Inl err) \<Rightarrow> Some (Inl err)
             | Some (Inr vol) \<Rightarrow> Some (Inr (Some (Builder_GCEPersistentDisk vol))))
          else Some (Inl ErrUnsupportedVolumeType))"

text \<open>\<open>CreateVolumeCleaner\<close>: the fields it does not set have Go's zero values.\<close>

definition CreateVolumeCleaner ::
  "string \<Rightarrow> string \<Rightarrow> string \<Rightarrow> string \<Rightarrow> error + Cleaner" where
  "CreateVolumeCleaner kind name podID rootDir =
     (if kind = ''empty'' then
        Inr (Cleaner_EmptyDirectory \<lparr> ed_Name = name, ed_PodID = podID, ed_RootDir = rootDir \<rparr>)
      else if kind = ''gce-pd'' then
        Inr (Cleaner_GCEPersistentDisk
              \<lparr> pd_Name = name, pd_PodID = podID, pd_RootDir = rootDir, pd_PDName = [],
                pd_FSType = [], pd_Partition = [], pd_ReadOnly = False \<rparr>)
      else Inl ErrUnsupportedVolumeType)"

section \<open>Reading the volumes back from the directory tree\<close>

text \<open>
  \<open>GetCurrentVolumes\<close> only reads. The directory tree is given by what
  \<open>ioutil.ReadDir\<close> answers for each path: an error, or the entries of the directory
  (name, and whether it is a directory). On an error \<open>ReadDir\<close> returns no entries, the
  code logs and goes on, and the loop over the entries runs zero times. The messages
  written with \<open>glog\<close> are not modelled.
\<close>

record FileInfo =
  fi_Name :: string
  fi_IsDir :: bool

type_synonym readdir = "string \<Rightarrow> error + FileInfo list"

definition entries :: "readdir \<Rightarrow> string \<Rightarrow> FileInfo list" where
  "entries ReadDir dir = (case ReadDir dir of Inl err \<Rightarrow> [] | Inr infos \<Rightarrow> infos)"

fun volumeNameLoop ::
  "string \<Rightarrow> string \<Rightarrow> string \<Rightarrow> FileInfo list \<Rightarrow> (string \<rightharpoonup> Cleaner) \<Rightarrow> (string \<rightharpoonup> Cleaner)" where
  "volumeNameLoop rootDirectory podID volumeKind [] currentVolumes = currentVolumes"
| "volumeNameLoop rootDirectory podID volumeKind (volumeNameDir # rest) currentVolumes =
     (let volumeName = fi_Name volumeNameDir;
          identifier = path_Join [podID, volumeName]
      in case CreateVolumeCleaner volumeKind volumeName podID rootDirectory of
           Inl err \<Rightarrow> volumeNameLoop rootDirectory podID volumeKind rest currentVolumes
         | Inr cleaner \<Rightarrow>
             volumeNameLoop rootDirectory podID volumeKind rest
               (currentVolumes(identifier \<mapsto> cleaner)))"

fun volumeKindLoop ::
  "readdir \<Rightarrow> string \<Rightarrow> string \<Rightarrow> string \<Rightarrow> FileInfo list \<Rightarrow> (string \<rightharpoonup> Cleaner)
     \<Rightarrow> (string \<rightharpoonup> Cleaner)" where
  "volumeKindLoop ReadDir rootDirectory podID podIDPath [] currentVolumes = currentVolumes"
| "volumeKindLoop ReadDir rootDirectory podID podIDPath (volumeKindDir # rest) currentVolumes =
     (let volumeKind = fi_Name volumeKindDir;
          volumeKindPath = path_Join [podIDPath, volumeKind];
          volumeNameDirs = entries ReadDir volumeKindPath
      in volumeKindLoop ReadDir rootDirectory podID podIDPath rest
           (volumeNameLoop rootDirectory podID volumeKind volumeNameDirs currentVolumes))"

fun podIDLoop ::
  "readdir \<Rightarrow> string \<Rightarrow> FileInfo list \<Rightarrow> (string \<rightharpoonup> Cleaner) \<Rightarrow> (string \<rightharpoonup> Cleaner)" where
  "podIDLoop ReadDir rootDirectory [] currentVolumes = currentVolumes"
| "podIDLoop ReadDir rootDirectory (podIDDir # rest) currentVolumes =
     (if \<not> fi_IsDir podIDDir then podIDLoop ReadDir rootDirectory rest currentVolumes
      else
        let podID = fi_Name podIDDir;
            podIDPath = path_Join [rootDirectory, podID, ''volumes''];
            volumeKindDirs = entries ReadDir podIDPath
        in podIDLoop ReadDir rootDirectory rest
             (volumeKindLoop ReadDir rootDirectory podID podIDPath volumeKindDirs currentVolumes))"

definition GetCurrentVolumes :: "readdir \<Rightarrow> string \<Rightarrow> (string \<rightharpoonup> Cleaner)" where
  "GetCurrentVolumes ReadDir rootDirectory =
     podIDLoop ReadDir rootDirectory (entries ReadDir rootDirectory) Map.empty"


section \<open>What a scan should find\<close>


definition triple_found :: "readdir \<Rightarrow> string \<Rightarrow> string \<Rightarrow> string \<Rightarrow> string \<Rightarrow> bool" where
  "triple_found ReadDir rootDir podID kind name =
     (\<exists>podDir \<in> set (entries ReadDir rootDir).
        fi_Name podDir = podID \<and>
        (\<exists>kindDir \<in> set (entries ReadDir (path_Join [rootDir, podID, ''volumes''])).
           fi_Name kindDir = kind \<and>
           (\<exists>nameDir \<in> set (entries ReadDir
                               (path_Join [path_Join [rootDir, podID, ''volumes''], kind])).
              fi_Name nameDir = name)))"

text \<open>
  The code looks below an entry of the root only when \<open>IsDir\<close> holds of it (the test
  at the head of the first loop). \<open>ioutil.ReadDir\<close> describes an entry without following
  a symbolic link, so a pod directory reached through a link is passed over although it
  can be listed. The triples the three loops visit are those below such an entry.
\<close>

definition pod_is_dir :: "readdir \<Rightarrow> string \<Rightarrow> string \<Rightarrow> bool" where
  "pod_is_dir ReadDir rootDir podID =
     (\<exists>podDir \<in> set (entries ReadDir rootDir). fi_IsDir podDir \<and> fi_Name podDir = podID)"

definition triple_scanned :: "readdir \<Rightarrow> string \<Rightarrow> string \<Rightarrow> string \<Rightarrow> string \<Rightarrow> bool" where
  "triple_scanned ReadDir rootDir podID kind name =
     (\<exists>podDir \<in> set (entries ReadDir rootDir).
        fi_IsDir podDir \<and> fi_Name podDir = podID \<and>
        (\<exists>kindDir \<in> set (entries ReadDir (path_Join [rootDir, podID, ''volumes''])).
           fi_Name kindDir = kind \<and>
           (\<exists>nameDir \<in> set (entries ReadDir
                               (path_Join [path_Join [rootDir, podID, ''volumes''], kind])).
              fi_Name nameDir = name)))"

text \<open>Three directory trees used as examples. \<open>ioutil.ReadDir\<close> sorts the entries by
  name. In the third the pod entry is a symbolic link to a directory.\<close>

definition dir :: "string \<Rightarrow> FileInfo" where
  "dir name = \<lparr> fi_Name = name, fi_IsDir = True \<rparr>"


definition collision_tree :: readdir where
  "collision_tree path =
     (if path = ''/r'' then Inr [dir ''p'']
      else if path = ''/r/p/volumes'' then Inr [dir ''empty'', dir ''gce-pd'']
      else if path = ''/r/p/volumes/empty'' then Inr [dir ''x'']
      else if path = ''/r/p/volumes/gce-pd'' then Inr [dir ''x'']
      else Inl ErrNotExist)"

definition symlink_tree :: readdir where
  "symlink_tree path =
     (if path = ''/r'' then Inr [\<lparr> fi_Name = ''pod-L'', fi_IsDir = False \<rparr>]
      else if path = ''/r/pod-L/volumes'' then Inr [dir ''empty'']
      else if path = ''/r/pod-L/volumes/empty'' then Inr [dir ''cache'']
      else Inl ErrNotExist)"

text \<open>A read-only persistent disk and an empty directory used as examples.\<close>

definition disk1 :: GCEPersistentDisk where
  "disk1 = \<lparr> pd_Name = ''data'', pd_PodID = ''pod-B'', pd_RootDir = ''/root'',
             pd_PDName = ''disk-1'', pd_FSType = ''ext4'', pd_Partition = [],
             pd_ReadOnly = True \<rparr>"

definition cache1 :: EmptyDirectory where
  "cache1 = \<lparr> ed_Name = ''cache'', ed_PodID = ''pod-A'', ed_RootDir = ''/root'' \<rparr>"

section \<open>Facts about paths\<close>

lemma split_slash_not_Nil: "split_slash p \<noteq> []"
  by (induction p) (auto split: list.splits)

lemma split_slash_append: "split_slash (a @ CHR ''/'' # b) = split_slash a @ split_slash b"
proof (induction a)
  case Nil
  show ?case by simp
next
  case (Cons c a)
  obtain e es where "split_slash a = e # es"
    using split_slash_not_Nil [of a] by (cases "split_slash a") auto
  with Cons show ?case by simp
qed

lemma split_slash_plain: "CHR ''/'' \<notin> set e \<Longrightarrow> split_slash e = [e]"
  by (induction e) auto

lemma join_slash_snoc: "es \<noteq> [] \<Longrightarrow> join_slash (es @ [e]) = join_slash es @ ''/'' @ e"
  by (induction es rule: join_slash.induct) auto

lemma clean_step_plain: "plain_elem e \<Longrightarrow> clean_step rooted stk e = e # stk"
  by (simp add: clean_step_def plain_elem_def)


lemma path_Clean_extend:
  assumes cl: "path_Clean root = root" and nr: "root \<noteq> ''/''" and nd: "root \<noteq> ''.''"
    and pe: "plain_elem e"
  shows "path_Clean (root @ ''/'' @ e) = root @ ''/'' @ e"
proof -
  have ne: "root \<noteq> []" using cl by (auto simp: path_Clean_def)
  define rooted where "rooted = (hd root = CHR ''/'')"
  define stk where "stk = foldl (clean_step rooted) [] (split_slash root)"
  have "path_Clean root = (if rooted then CHR ''/'' # join_slash (rev stk)
                           else if stk = [] then ''.'' else join_slash (rev stk))"
    unfolding path_Clean_def Let_def rooted_def stk_def using ne by (simp only: if_False)
  then have root_eq: "root = (if rooted then CHR ''/'' # join_slash (rev stk)
                              else if stk = [] then ''.'' else join_slash (rev stk))"
    using cl by simp
  have stk_ne: "stk \<noteq> []"
    using root_eq nr nd by (auto split: if_splits)
  have slash: "CHR ''/'' \<notin> set e" using pe by (simp add: plain_elem_def)
  have f: "foldl (clean_step rooted) [] (split_slash (root @ CHR ''/'' # e)) = e # stk"
    by (simp add: split_slash_append split_slash_plain [OF slash] clean_step_plain [OF pe] stk_def)
  have r: "(hd (root @ CHR ''/'' # e) = CHR ''/'') = rooted"
    using ne by (simp add: rooted_def)
  have "path_Clean (root @ CHR ''/'' # e) =
      (if rooted then CHR ''/'' # join_slash (rev stk @ [e]) else join_slash (rev stk @ [e]))"
    unfolding path_Clean_def Let_def r f by simp
  also have "\<dots> = root @ CHR ''/'' # e"
    using root_eq stk_ne by (simp add: join_slash_snoc)
  finally show ?thesis by simp
qed

lemma extend_not_special:
  assumes "plain_elem e"
  shows "root @ ''/'' @ e \<noteq> ''/'' \<and> root @ ''/'' @ e \<noteq> ''.''"
proof -
  have "e \<noteq> []" using assms by (simp add: plain_elem_def)
  then have len: "length (root @ ''/'' @ e) \<ge> 2" by (cases e) auto
  have "root @ ''/'' @ e \<noteq> ''/''"
  proof
    assume "root @ ''/'' @ e = ''/''"
    then have "length (root @ ''/'' @ e) = length ''/''" by (rule arg_cong)
    with len show False by simp
  qed
  moreover have "root @ ''/'' @ e \<noteq> ''.''"
  proof
    assume "root @ ''/'' @ e = ''.''"
    then have "length (root @ ''/'' @ e) = length ''.''" by (rule arg_cong)
    with len show False by simp
  qed
  ultimately show ?thesis by simp
qed

lemma plain_consts:
  "plain_elem ''volumes''" "plain_elem ''empty''" "plain_elem ''gce-pd''"
  "plain_elem ''global''" "plain_elem ''pd''"
  by (simp_all add: plain_elem_def)


lemma path_Join4:
  assumes cl: "path_Clean root = root" "root \<noteq> ''/''" "root \<noteq> ''.''"
    and a: "plain_elem a" and b: "plain_elem b" and c: "plain_elem c"
  shows "path_Join [root, a, b, c] = root @ ''/'' @ a @ ''/'' @ b @ ''/'' @ c"
proof -
  have ne: "root \<noteq> []" using cl(1) by (auto simp: path_Clean_def)
  have nes: "a \<noteq> []" "b \<noteq> []" "c \<noteq> []" using a b c by (simp_all add: plain_elem_def)
  note s1 = path_Clean_extend [OF cl a]
  note n1 = extend_not_special [OF a, of root]
  note s2 = path_Clean_extend [OF s1 n1 [THEN conjunct1] n1 [THEN conjunct2] b]
  note n2 = extend_not_special [OF b, of "root @ ''/'' @ a"]
  note s3 = path_Clean_extend [OF s2 n2 [THEN conjunct1] n2 [THEN conjunct2] c]
  from s3 have
    "path_Clean (root @ ''/'' @ a @ ''/'' @ b @ ''/'' @ c) = root @ ''/'' @ a @ ''/'' @ b @ ''/'' @ c"
    by simp
  then show ?thesis using ne nes by (simp add: path_Join_def)
qed

lemma path_Join5:
  assumes cl: "path_Clean root = root" "root \<noteq> ''/''" "root \<noteq> ''.''"
    and a: "plain_elem a" and b: "plain_elem b" and c: "plain_elem c" and d: "plain_elem d"
  shows "path_Join [root, a, b, c, d] = root @ ''/'' @ a @ ''/'' @ b @ ''/'' @ c @ ''/'' @ d"
proof -
  have ne: "root \<noteq> []" using cl(1) by (auto simp: path_Clean_def)
  have nes: "a \<noteq> []" "b \<noteq> []" "c \<noteq> []" "d \<noteq> []"
    using a b c d by (simp_all add: plain_elem_def)
  note s1 = path_Clean_extend [OF cl a]
  note n1 = extend_not_special [OF a, of root]
  note s2 = path_Clean_extend [OF s1 n1 [THEN conjunct1] n1 [THEN conjunct2] b]
  note n2 = extend_not_special [OF b, of "root @ ''/'' @ a"]
  note s3 = path_Clean_extend [OF s2 n2 [THEN conjunct1] n2 [THEN conjunct2] c]
  note n3 = extend_not_special [OF c, of "(root @ ''/'' @ a) @ ''/'' @ b"]
  note s4 = path_Clean_extend [OF s3 n3 [THEN conjunct1] n3 [THEN conjunct2] d]
  from s4 have
    "path_Clean (root @ ''/'' @ a @ ''/'' @ b @ ''/'' @ c @ ''/'' @ d)
       = root @ ''/'' @ a @ ''/'' @ b @ ''/'' @ c @ ''/'' @ d"
    by simp
  then show ?thesis using ne nes by (simp add: path_Join_def)
qed

section \<open>The layout of the paths\<close>

text \<open>
  C1, as stated: for every identity the path is the string
  \<open>rootDir/podID/volumes/empty/name\<close>. It is not: \<open>path.Join\<close> cleans its result, so
  for the volume name \<open>..\<close> under \<open>/r\<close> and pod \<open>p\<close> the method returns
  \<open>/r/p/volumes\<close>.
\<close>

theorem GetPath_exact_counterexample:
  "EmptyDirectory_GetPath \<lparr> ed_Name = ''..'', ed_PodID = ''p'', ed_RootDir = ''/r'' \<rparr>
     \<noteq> ''/r'' @ ''/'' @ ''p'' @ ''/volumes/empty/'' @ ''..''"
  by (simp add: EmptyDirectory_GetPath_def path_Join_def path_Clean_def clean_step_def)

text \<open>
  C1, amended: when the root directory is a cleaned path other than \<open>/\<close> and \<open>.\<close> and
  the pod identifier, the volume name and the disk name are plain path elements, then
  \<open>EmptyDirectory.GetPath\<close> is exactly \<open>rootDir/podID/volumes/empty/name\<close>,
  \<open>GCEPersistentDisk.GetPath\<close> is exactly \<open>rootDir/podID/volumes/gce-pd/name\<close> for every
  disk with that identity, whatever its other fields, and the global mount path is
  exactly \<open>rootDir/global/pd/pdName\<close>. The three are functions of their arguments: no
  state is read or written.
\<close>

theorem GetPath_layout:
  assumes "path_Clean rootDir = rootDir" and "rootDir \<noteq> ''/''" and "rootDir \<noteq> ''.''"
    and "plain_elem podID" and "plain_elem name" and "plain_elem pdName"
  shows "EmptyDirectory_GetPath \<lparr> ed_Name = name, ed_PodID = podID, ed_RootDir = rootDir \<rparr>
           = rootDir @ ''/'' @ podID @ ''/volumes/empty/'' @ name
       \<and> (pd_Name PD = name \<and> pd_PodID PD = podID \<and> pd_RootDir PD = rootDir
            \<longrightarrow> GCEPersistentDisk_GetPath PD = rootDir @ ''/'' @ podID @ ''/volumes/gce-pd/'' @ name)
       \<and> makeGlobalPDName rootDir pdName = rootDir @ ''/global/pd/'' @ pdName"
proof -
  note cl = assms(1-3)
  have "path_Join [rootDir, podID, ''volumes'', ''empty'', name]
          = rootDir @ ''/'' @ podID @ ''/volumes/empty/'' @ name"
    using path_Join5 [OF cl assms(4) plain_consts(1) plain_consts(2) assms(5)] by simp
  moreover have "path_Join [rootDir, podID, ''volumes'', ''gce-pd'', name]
          = rootDir @ ''/'' @ podID @ ''/volumes/gce-pd/'' @ name"
    using path_Join5 [OF cl assms(4) plain_consts(1) plain_consts(3) assms(5)] by simp
  moreover have "path_Join [rootDir, ''global'', ''pd'', pdName]
          = rootDir @ ''/global/pd/'' @ pdName"
    using path_Join4 [OF cl plain_consts(4) plain_consts(5) assms(6)] by simp
  ultimately show ?thesis
    by (simp add: EmptyDirectory_GetPath_def GCEPersistentDisk_GetPath_def makeGlobalPDName_def)
qed

theorem GetPath_layout_witness:
  "path_Clean ''/var/lib/kubelet'' = ''/var/lib/kubelet''
   \<and> ''/var/lib/kubelet'' \<noteq> ''/'' \<and> ''/var/lib/kubelet'' \<noteq> ''.''
   \<and> plain_elem ''pod-A'' \<and> plain_elem ''cache'' \<and> plain_elem ''disk-1''
   \<and> EmptyDirectory_GetPath
        \<lparr> ed_Name = ''cache'', ed_PodID = ''pod-A'', ed_RootDir = ''/var/lib/kubelet'' \<rparr>
        = ''/var/lib/kubelet/pod-A/volumes/empty/cache''
   \<and> GCEPersistentDisk_GetPath
        \<lparr> pd_Name = ''cache'', pd_PodID = ''pod-A'', pd_RootDir = ''/var/lib/kubelet'',
          pd_PDName = ''disk-1'', pd_FSType = ''ext4'', pd_Partition = [], pd_ReadOnly = True \<rparr>
        = ''/var/lib/kubelet/pod-A/volumes/gce-pd/cache''
   \<and> makeGlobalPDName ''/var/lib/kubelet'' ''disk-1'' = ''/var/lib/kubelet/global/pd/disk-1''"
proof -
  have h1: "path_Clean ''/var/lib/kubelet'' = ''/var/lib/kubelet''"
    by (simp add: path_Clean_def clean_step_def)
  have h2: "''/var/lib/kubelet'' \<noteq> ''/''" and h3: "''/var/lib/kubelet'' \<noteq> ''.''"
    by simp_all
  have h4: "plain_elem ''pod-A''" and h5: "plain_elem ''cache''" and h6: "plain_elem ''disk-1''"
    by (simp_all add: plain_elem_def)
  show ?thesis
    using h1 h4 h5 h6
      GetPath_layout [OF h1 h2 h3 h4 h5 h6,
        of "\<lparr> pd_Name = ''cache'', pd_PodID = ''pod-A'', pd_RootDir = ''/var/lib/kubelet'',
              pd_PDName = ''disk-1'', pd_FSType = ''ext4'', pd_Partition = [],
              pd_ReadOnly = True \<rparr>"]
    by simp
qed


section \<open>HostDirectory\<close>

text \<open>
  C9, as stated: \<open>HostDirectory.TearDown\<close> is a no-op. \<open>HostDirectory\<close> declares no
  \<open>TearDown\<close>: its methods are \<open>SetUp\<close> and \<open>GetPath\<close> only.
\<close>

theorem HostDirectory_TearDown_counterexample:
  "TearDown \<notin> set (declared_methods HostDirectory_type)"
  by simp

text \<open>
  C9, amended: \<open>HostDirectory.SetUp\<close> returns success and leaves the state of the world
  as it was, \<open>GetPath\<close> returns the path the caller supplied, and \<open>HostDirectory\<close>
  has the methods of a \<open>Builder\<close> but not the \<open>TearDown\<close> of a \<open>Cleaner\<close>.
\<close>

theorem HostDirectory_no_op:
  "HostDirectory_SetUp hostVol w = (None, w)
   \<and> HostDirectory_GetPath hostVol = Path hostVol
   \<and> HostDirectory_GetPath \<lparr> Path = p \<rparr> = p
   \<and> set Builder_methods \<subseteq> set (declared_methods HostDirectory_type)
   \<and> set Cleaner_methods \<inter> set (declared_methods HostDirectory_type) = {}"
  by (simp add: HostDirectory_SetUp_def HostDirectory_GetPath_def Builder_methods_def
        Cleaner_methods_def)

section \<open>The factory\<close>

lemma CreateVolumeBuilder_defined: "CreateVolumeBuilder volume podID rootDir \<noteq> None"
  by (auto simp: CreateVolumeBuilder_def createHostDirectory_def createGCEPersistentDisk_def
        Let_def split: option.splits)

text \<open>
  C7: \<open>CreateVolumeBuilder\<close> returns \<open>(nil, nil)\<close> when the source is unset, and
  \<open>ErrUnsupportedVolumeType\<close> when the source is set with none of its three descriptors;
  \<open>CreateVolumeCleaner\<close> returns \<open>ErrUnsupportedVolumeType\<close> for every kind other than
  \<open>empty\<close> and \<open>gce-pd\<close>.
\<close>

theorem factory_unsupported:
  "(vol_Source volume = None
      \<longrightarrow> CreateVolumeBuilder volume podID rootDir = Some (Inr None))
   \<and> (vol_Source volume = Some source \<and> src_HostDirectory source = None
        \<and> src_EmptyDirectory source = None \<and> src_GCEPersistentDisk source = None
      \<longrightarrow> CreateVolumeBuilder volume podID rootDir = Some (Inl ErrUnsupportedVolumeType))
   \<and> (kind \<noteq> ''empty'' \<and> kind \<noteq> ''gce-pd''
      \<longrightarrow> CreateVolumeCleaner kind name podID rootDir = Inl ErrUnsupportedVolumeType)"
  by (simp add: CreateVolumeBuilder_def CreateVolumeCleaner_def)

theorem factory_unsupported_witness:
  "CreateVolumeBuilder \<lparr> vol_Name = ''v'', vol_Source = None \<rparr> ''pod-A'' ''/root''
     = Some (Inr None)
   \<and> CreateVolumeBuilder
       \<lparr> vol_Name = ''v'',
         vol_Source = Some \<lparr> src_HostDirectory = None, src_EmptyDirectory = None,
                             src_GCEPersistentDisk = None \<rparr> \<rparr> ''pod-A'' ''/root''
     = Some (Inl ErrUnsupportedVolumeType)
   \<and> ''host'' \<noteq> ''empty'' \<and> ''host'' \<noteq> ''gce-pd''
   \<and> CreateVolumeCleaner ''host'' ''v'' ''pod-A'' ''/root'' = Inl ErrUnsupportedVolumeType"
proof -
  let ?none = "\<lparr> vol_Name = ''v'', vol_Source = None \<rparr>"
  let ?src = "\<lparr> src_HostDirectory = None, src_EmptyDirectory = None,
                 src_GCEPersistentDisk = None \<rparr>"
  let ?bare = "\<lparr> vol_Name = ''v'', vol_Source = Some ?src \<rparr>"
  have a: "CreateVolumeBuilder ?none ''pod-A'' ''/root'' = Some (Inr None)"
    using factory_unsupported [of ?none "''pod-A''" "''/root''" ?src "''host''" "''v''"]
    by simp
  have b: "CreateVolumeBuilder ?bare ''pod-A'' ''/root'' = Some (Inl ErrUnsupportedVolumeType)"
    using factory_unsupported [of ?bare "''pod-A''" "''/root''" ?src "''host''" "''v''"]
    by simp
  have c: "CreateVolumeCleaner ''host'' ''v'' ''pod-A'' ''/root'' = Inl ErrUnsupportedVolumeType"
    using factory_unsupported [of ?bare "''pod-A''" "''/root''" ?src "''host''" "''v''"]
    by simp
  from a b c show ?thesis by simp
qed

section \<open>The calls of SetUp and TearDown\<close>

lemma logged_simps:
  "os_Stat (logged E) p (w, cs) = (case os_Stat E p w of (r, w') \<Rightarrow> (r, w', cs @ [Call_Stat p]))"
  "os_MkdirAll (logged E) p m (w, cs) =
     (case os_MkdirAll E p m w of (r, w') \<Rightarrow> (r, w', cs @ [Call_MkdirAll p m]))"
  "os_RemoveAll (logged E) p (w, cs) =
     (case os_RemoveAll E p w of (r, w') \<Rightarrow> (r, w', cs @ [Call_RemoveAll p]))"
  "os_Rename (logged E) p q (w, cs) =
     (case os_Rename E p q w of (r, w') \<Rightarrow> (r, w', cs @ [Call_Rename p q]))"
  "ioutil_TempDir (logged E) d x (w, cs) =
     (case ioutil_TempDir E d x w of (r, w') \<Rightarrow> (r, w', cs @ [Call_TempDir d x]))"
  "util_AttachDisk (logged E) PD (w, cs) =
     (case util_AttachDisk E PD w of (r, w') \<Rightarrow> (r, w', cs @ [Call_AttachDisk PD]))"
  "util_DetachDisk (logged E) PD dev (w, cs) =
     (case util_DetachDisk E PD dev w of (r, w') \<Rightarrow> (r, w', cs @ [Call_DetachDisk PD dev]))"
  "mounter_Mount (logged E) s t f fl d (w, cs) =
     (case mounter_Mount E s t f fl d w of (r, w') \<Rightarrow> (r, w', cs @ [Call_Mount s t f fl d]))"
  "mounter_Unmount (logged E) t ufl (w, cs) =
     (case mounter_Unmount E t ufl w of (r, w') \<Rightarrow> (r, w', cs @ [Call_Unmount t ufl]))"
  "mounter_RefCount (logged E) p (w, cs) =
     (case mounter_RefCount E p w of (r, w') \<Rightarrow> (r, w', cs @ [Call_RefCount p]))"
  "MOUNT_MS_BIND (logged E) = MOUNT_MS_BIND E"
  "MOUNT_MS_RDONLY (logged E) = MOUNT_MS_RDONLY E"
  by (simp_all add: logged_def logging_def)

lemma stub_simps:
  "os_Stat (stubEnv s) p w = (stat_r s, w)"
  "os_MkdirAll (stubEnv s) p m w = (mkdir_r s, w)"
  "os_RemoveAll (stubEnv s) p w = (remove_r s, w)"
  "os_Rename (stubEnv s) p q w = (rename_r s, w)"
  "ioutil_TempDir (stubEnv s) d x w = (tempdir_r s, w)"
  "util_AttachDisk (stubEnv s) PD w = (attach_r s, w)"
  "util_DetachDisk (stubEnv s) PD dev w = (detach_r s, w)"
  "mounter_Mount (stubEnv s) src t f fl d w = (mount_r s, w)"
  "mounter_Unmount (stubEnv s) t ufl w = (unmount_r s, w)"
  "mounter_RefCount (stubEnv s) p w = (refcount_r s, w)"
  "MOUNT_MS_BIND (stubEnv s) = 4096"
  "MOUNT_MS_RDONLY (stubEnv s) = 1"
  by (simp_all add: stubEnv_def)

text \<open>Recording the calls changes neither the result nor the state.\<close>

lemma TearDown_logged_same:
  "(case GCEPersistentDisk_TearDown (logged E) PD (w, cs) of (r, w', cs') \<Rightarrow> (r, w'))
     = GCEPersistentDisk_TearDown E PD w"
  unfolding GCEPersistentDisk_TearDown_def
  by (simp add: logged_simps Let_def split: prod.splits option.splits)

lemma SetUp_logged_same:
  "(case GCEPersistentDisk_SetUp (logged E) PD (w, cs) of (r, w', cs') \<Rightarrow> (r, w'))
     = GCEPersistentDisk_SetUp E PD w"
  unfolding GCEPersistentDisk_SetUp_def
  by (simp add: logged_simps Let_def split: prod.splits option.splits)



section \<open>GCEPersistentDisk.TearDown\<close>

text \<open>
  C2, as stated: once the unmount has succeeded, \<open>DetachDisk\<close> is called if and only
  if the count less one is \<open>1\<close>. Not always: when \<open>os.RemoveAll\<close> fails,
  \<open>TearDown\<close> returns that error at once. Here \<open>RefCount\<close> observes \<open>2\<close>, the
  unmount succeeds and the removal fails: the count less one is \<open>1\<close> and
  \<open>DetachDisk\<close> is not called.
\<close>

theorem TearDown_removal_fails_counterexample:
  "refcount_r (all_ok \<lparr> remove_r := Some (ErrOther ''busy'') \<rparr>) = (''/dev/sdb'', 2, None)
   \<and> unmount_r (all_ok \<lparr> remove_r := Some (ErrOther ''busy'') \<rparr>) = None
   \<and> (2 :: int) - 1 = 1
   \<and> GCEPersistentDisk_TearDown
       (logged (stubEnv (all_ok \<lparr> remove_r := Some (ErrOther ''busy'') \<rparr>))) disk1 ((), [])
     = (Some (ErrOther ''busy''), (),
        [Call_RefCount (GCEPersistentDisk_GetPath disk1),
         Call_Unmount (GCEPersistentDisk_GetPath disk1) 0,
         Call_RemoveAll (GCEPersistentDisk_GetPath disk1)])
   \<and> Call_DetachDisk disk1 ''/dev/sdb''
       \<notin> set (snd (snd (GCEPersistentDisk_TearDown
           (logged (stubEnv (all_ok \<lparr> remove_r := Some (ErrOther ''busy'') \<rparr>))) disk1 ((), []))))"
  by (simp add: GCEPersistentDisk_TearDown_def logged_simps stub_simps all_ok_def Let_def)

text \<open>
  C2, amended: \<open>TearDown\<close> first asks the mounter's \<open>RefCount\<close> about the canonical
  path, and returns its error, if any, with no further call; it then unmounts that path,
  and when the unmount fails it returns that error, with neither \<open>os.RemoveAll\<close> nor
  \<open>DetachDisk\<close> called; otherwise it removes the canonical directory, and returns the
  error of the removal, if any, without calling \<open>DetachDisk\<close>; otherwise it calls
  \<open>DetachDisk\<close>, with the device path \<open>RefCount\<close> gave, exactly when the observed
  count less one is \<open>1\<close>. The calls are those listed and no other.
\<close>

theorem TearDown_steps:
  assumes "mounter_RefCount E (GCEPersistentDisk_GetPath PD) w0 = ((dev, n, rerr), w1)"
    and "mounter_Unmount E (GCEPersistentDisk_GetPath PD) 0 w1 = (uerr, w2)"
    and "os_RemoveAll E (GCEPersistentDisk_GetPath PD) w2 = (merr, w3)"
    and "util_DetachDisk E PD dev w3 = (derr, w4)"
  shows "GCEPersistentDisk_TearDown (logged E) PD (w0, []) =
     (let p = GCEPersistentDisk_GetPath PD in
      if rerr \<noteq> None then (rerr, w1, [Call_RefCount p])
      else if uerr \<noteq> None then (uerr, w2, [Call_RefCount p, Call_Unmount p 0])
      else if merr \<noteq> None then
        (merr, w3, [Call_RefCount p, Call_Unmount p 0, Call_RemoveAll p])
      else if n - 1 = 1 then
        (derr, w4, [Call_RefCount p, Call_Unmount p 0, Call_RemoveAll p,
                    Call_DetachDisk PD dev])
      else (None, w3, [Call_RefCount p, Call_Unmount p 0, Call_RemoveAll p]))"
  unfolding GCEPersistentDisk_TearDown_def
  by (simp add: logged_simps assms Let_def split: option.splits)

lemma disk1_paths:
  "GCEPersistentDisk_GetPath disk1 = ''/root/pod-B/volumes/gce-pd/data''"
  "makeGlobalPDName (pd_RootDir disk1) (pd_PDName disk1) = ''/root/global/pd/disk-1''"
  by (simp_all add: disk1_def GCEPersistentDisk_GetPath_def makeGlobalPDName_def path_Join_def
        path_Clean_def clean_step_def)

theorem TearDown_steps_witness:
  "mounter_RefCount (stubEnv (all_ok \<lparr> unmount_r := Some (ErrOther ''busy'') \<rparr>))
       (GCEPersistentDisk_GetPath disk1) () = ((''/dev/sdb'', 2, None), ())
   \<and> mounter_Unmount (stubEnv (all_ok \<lparr> unmount_r := Some (ErrOther ''busy'') \<rparr>))
       (GCEPersistentDisk_GetPath disk1) 0 () = (Some (ErrOther ''busy''), ())
   \<and> os_RemoveAll (stubEnv (all_ok \<lparr> unmount_r := Some (ErrOther ''busy'') \<rparr>))
       (GCEPersistentDisk_GetPath disk1) () = (None, ())
   \<and> util_DetachDisk (stubEnv (all_ok \<lparr> unmount_r := Some (ErrOther ''busy'') \<rparr>))
       disk1 ''/dev/sdb'' () = (None, ())
   \<and> GCEPersistentDisk_TearDown
       (logged (stubEnv (all_ok \<lparr> unmount_r := Some (ErrOther ''busy'') \<rparr>))) disk1 ((), [])
     = (Some (ErrOther ''busy''), (),
        [Call_RefCount ''/root/pod-B/volumes/gce-pd/data'',
         Call_Unmount ''/root/pod-B/volumes/gce-pd/data'' 0])"
proof -
  let ?E = "stubEnv (all_ok \<lparr> unmount_r := Some (ErrOther ''busy'') \<rparr>)"
  have h1: "mounter_RefCount ?E (GCEPersistentDisk_GetPath disk1) ()
              = ((''/dev/sdb'', 2, None), ())"
    by (simp add: stub_simps all_ok_def)
  have h2: "mounter_Unmount ?E (GCEPersistentDisk_GetPath disk1) 0 ()
              = (Some (ErrOther ''busy''), ())"
    by (simp add: stub_simps all_ok_def)
  have h3: "os_RemoveAll ?E (GCEPersistentDisk_GetPath disk1) () = (None, ())"
    by (simp add: stub_simps all_ok_def)
  have h4: "util_DetachDisk ?E disk1 ''/dev/sdb'' () = (None, ())"
    by (simp add: stub_simps all_ok_def)
  show ?thesis
    using h1 h2 h3 h4 TearDown_steps [OF h1 h2 h3 h4]
    by (simp add: disk1_paths Let_def)
qed

text \<open>
  C3, as stated: a \<open>TearDown\<close> that observes the count \<open>2\<close> leaves the disk attached.
  It does not: the observed count is decremented before it is compared with \<open>1\<close>, so
  at the count \<open>2\<close> (the global mount and this one bind mount) \<open>DetachDisk\<close> is called.
\<close>

theorem TearDown_count_two_counterexample:
  "Call_DetachDisk disk1 ''/dev/sdb''
     \<in> set (snd (snd (GCEPersistentDisk_TearDown (logged (stubEnv all_ok)) disk1 ((), []))))"
  by (simp add: GCEPersistentDisk_TearDown_def logged_simps stub_simps all_ok_def Let_def)

text \<open>
  C3, amended: when the \<open>RefCount\<close> query, the unmount and the removal of the directory
  succeed, \<open>TearDown\<close> calls \<open>DetachDisk\<close> exactly when the observed count is \<open>2\<close>.
  With two bind mounts of one disk beside its global mount the first \<open>TearDown\<close>
  observes \<open>3\<close> and leaves the disk attached, the second observes \<open>2\<close> and detaches
  it; an observed count of \<open>1\<close> leaves it attached.
\<close>

theorem TearDown_detaches_at_two:
  assumes "mounter_RefCount E (GCEPersistentDisk_GetPath PD) w0 = ((dev, n, None), w1)"
    and "mounter_Unmount E (GCEPersistentDisk_GetPath PD) 0 w1 = (None, w2)"
    and "os_RemoveAll E (GCEPersistentDisk_GetPath PD) w2 = (None, w3)"
  shows "snd (snd (GCEPersistentDisk_TearDown (logged E) PD (w0, []))) =
           [Call_RefCount (GCEPersistentDisk_GetPath PD),
            Call_Unmount (GCEPersistentDisk_GetPath PD) 0,
            Call_RemoveAll (GCEPersistentDisk_GetPath PD)]
           @ (if n = 2 then [Call_DetachDisk PD dev] else [])"
  unfolding GCEPersistentDisk_TearDown_def
  by (simp add: logged_simps assms Let_def split: option.splits prod.splits)

theorem TearDown_detaches_at_two_witness:
  "mounter_RefCount (stubEnv (all_ok \<lparr> refcount_r := (''/dev/sdb'', 3, None) \<rparr>))
       (GCEPersistentDisk_GetPath disk1) () = ((''/dev/sdb'', 3, None), ())
   \<and> mounter_Unmount (stubEnv (all_ok \<lparr> refcount_r := (''/dev/sdb'', 3, None) \<rparr>))
       (GCEPersistentDisk_GetPath disk1) 0 () = (None, ())
   \<and> os_RemoveAll (stubEnv (all_ok \<lparr> refcount_r := (''/dev/sdb'', 3, None) \<rparr>))
       (GCEPersistentDisk_GetPath disk1) () = (None, ())
   \<and> snd (snd (GCEPersistentDisk_TearDown
         (logged (stubEnv (all_ok \<lparr> refcount_r := (''/dev/sdb'', 3, None) \<rparr>))) disk1 ((), [])))
     = [Call_RefCount ''/root/pod-B/volumes/gce-pd/data'',
        Call_Unmount ''/root/pod-B/volumes/gce-pd/data'' 0,
        Call_RemoveAll ''/root/pod-B/volumes/gce-pd/data'']"
proof -
  let ?E = "stubEnv (all_ok \<lparr> refcount_r := (''/dev/sdb'', 3, None) \<rparr>)"
  have h1: "mounter_RefCount ?E (GCEPersistentDisk_GetPath disk1) ()
              = ((''/dev/sdb'', 3, None), ())"
    by (simp add: stub_simps all_ok_def)
  have h2: "mounter_Unmount ?E (GCEPersistentDisk_GetPath disk1) 0 () = (None, ())"
    by (simp add: stub_simps all_ok_def)
  have h3: "os_RemoveAll ?E (GCEPersistentDisk_GetPath disk1) () = (None, ())"
    by (simp add: stub_simps all_ok_def)
  show ?thesis
    using h1 h2 h3 TearDown_detaches_at_two [OF h1 h2 h3]
    by (simp add: disk1_paths)
qed

section \<open>GCEPersistentDisk.SetUp\<close>






section \<open>Calling SetUp again, and TearDown without SetUp\<close>

text \<open>
  C5: a second \<open>SetUp\<close> succeeds and repeats no side effect. For \<open>HostDirectory\<close>
  every call returns success and changes nothing. For \<open>GCEPersistentDisk\<close>, when
  \<open>os.Stat\<close> does not report the canonical path as missing, the call returns success
  and the \<open>os.Stat\<close> is its only call: no \<open>AttachDisk\<close>, no \<open>Mount\<close>. For
  \<open>EmptyDirectory\<close> the call is one \<open>os.MkdirAll\<close> of the canonical path; on a
  directory that exists \<open>os.MkdirAll\<close> does nothing and returns \<open>nil\<close>, and then so
  does \<open>SetUp\<close>.
\<close>

theorem SetUp_again:
  "HostDirectory_SetUp hostVol w = (None, w)
   \<and> (os_Stat E (GCEPersistentDisk_GetPath PD) w0 = (serr, w1) \<and> serr \<noteq> Some ErrNotExist
        \<longrightarrow> GCEPersistentDisk_SetUp (logged E) PD (w0, [])
              = (None, w1, [Call_Stat (GCEPersistentDisk_GetPath PD)]))
   \<and> (os_MkdirAll E (EmptyDirectory_GetPath emptyDir) mode_0750 w0 = (None, w0)
        \<longrightarrow> EmptyDirectory_SetUp (logged E) emptyDir (w0, [])
              = (None, w0, [Call_MkdirAll (EmptyDirectory_GetPath emptyDir) mode_0750]))"
  by (simp add: HostDirectory_SetUp_def GCEPersistentDisk_SetUp_def EmptyDirectory_SetUp_def
        logged_simps os_IsNotExist_def Let_def)

lemma cache1_paths:
  "EmptyDirectory_GetPath cache1 = ''/root/pod-A/volumes/empty/cache''"
  "path_Dir ''/root/pod-A/volumes/empty/cache'' = ''/root/pod-A/volumes/empty''"
  "path_Base ''/root/pod-A/volumes/empty/cache'' = ''cache''"
  by (simp_all add: cache1_def EmptyDirectory_GetPath_def path_Join_def path_Dir_def
        path_Base_def path_Clean_def clean_step_def)

theorem SetUp_again_witness:
  "os_Stat (stubEnv (all_ok \<lparr> stat_r := None \<rparr>)) (GCEPersistentDisk_GetPath disk1) ()
     = (None, ())
   \<and> None \<noteq> Some ErrNotExist
   \<and> GCEPersistentDisk_SetUp (logged (stubEnv (all_ok \<lparr> stat_r := None \<rparr>))) disk1 ((), [])
     = (None, (), [Call_Stat ''/root/pod-B/volumes/gce-pd/data''])
   \<and> os_MkdirAll (stubEnv (all_ok \<lparr> stat_r := None \<rparr>)) (EmptyDirectory_GetPath cache1)
       mode_0750 () = (None, ())
   \<and> EmptyDirectory_SetUp (logged (stubEnv (all_ok \<lparr> stat_r := None \<rparr>))) cache1 ((), [])
     = (None, (), [Call_MkdirAll ''/root/pod-A/volumes/empty/cache'' 488])"
proof -
  let ?E = "stubEnv (all_ok \<lparr> stat_r := None \<rparr>)"
  have h1: "os_Stat ?E (GCEPersistentDisk_GetPath disk1) () = (None, ())"
    by (simp add: stub_simps all_ok_def)
  have h2: "os_MkdirAll ?E (EmptyDirectory_GetPath cache1) mode_0750 () = (None, ())"
    by (simp add: stub_simps all_ok_def)
  show ?thesis
    using h1 h2
      SetUp_again [of "\<lparr> Path = ''/data'' \<rparr>" "()" ?E disk1 "()" None "()" cache1]
    by (simp add: disk1_paths cache1_paths mode_0750_def)
qed

text \<open>
  C6 says that \<open>TearDown\<close> of a volume that was never set up returns success. The code
  has no such guard. \<open>EmptyDirectory.TearDown\<close> returns the error of
  \<open>ioutil.TempDir\<close> or, when the temporary directory could be made, the error of
  \<open>os.Rename\<close>, which fails for a path that does not exist;
  \<open>GCEPersistentDisk.TearDown\<close> returns the error of \<open>Unmount\<close>. In each case the
  failing call is the last one made.
\<close>

theorem TearDown_without_SetUp:
  "(ioutil_TempDir E (path_Dir (EmptyDirectory_GetPath emptyDir))
        (path_Base (EmptyDirectory_GetPath emptyDir) @ ''.deleting~'') w0 = ((tmp, None), w1)
      \<and> os_Rename E (EmptyDirectory_GetPath emptyDir) tmp w1 = (Some err, w2)
      \<longrightarrow> EmptyDirectory_TearDown (logged E) emptyDir (w0, [])
            = (Some err, w2,
               [Call_TempDir (path_Dir (EmptyDirectory_GetPath emptyDir))
                  (path_Base (EmptyDirectory_GetPath emptyDir) @ ''.deleting~''),
                Call_Rename (EmptyDirectory_GetPath emptyDir) tmp]))
   \<and> (ioutil_TempDir E (path_Dir (EmptyDirectory_GetPath emptyDir))
        (path_Base (EmptyDirectory_GetPath emptyDir) @ ''.deleting~'') w0 = ((tmp, Some err), w1)
      \<longrightarrow> EmptyDirectory_TearDown (logged E) emptyDir (w0, [])
            = (Some err, w1,
               [Call_TempDir (path_Dir (EmptyDirectory_GetPath emptyDir))
                  (path_Base (EmptyDirectory_GetPath emptyDir) @ ''.deleting~'')]))
   \<and> (mounter_RefCount E (GCEPersistentDisk_GetPath PD) w0 = ((dev, n, None), w1)
      \<and> mounter_Unmount E (GCEPersistentDisk_GetPath PD) 0 w1 = (Some err, w2)
      \<longrightarrow> GCEPersistentDisk_TearDown (logged E) PD (w0, [])
            = (Some err, w2,
               [Call_RefCount (GCEPersistentDisk_GetPath PD),
                Call_Unmount (GCEPersistentDisk_GetPath PD) 0]))"
  by (simp add: EmptyDirectory_TearDown_def renameDirectory_def GCEPersistentDisk_TearDown_def
        logged_simps Let_def)

theorem TearDown_without_SetUp_witness:
  "ioutil_TempDir
       (stubEnv (all_ok \<lparr> rename_r := Some ErrNotExist,
                          tempdir_r := (''/root/pod-A/volumes/empty/cache.deleting~042'', None),
                          unmount_r := Some ErrNotExist, refcount_r := ([], 0, None) \<rparr>))
       (path_Dir (EmptyDirectory_GetPath cache1))
       (path_Base (EmptyDirectory_GetPath cache1) @ ''.deleting~'') ()
     = ((''/root/pod-A/volumes/empty/cache.deleting~042'', None), ())
   \<and> os_Rename
       (stubEnv (all_ok \<lparr> rename_r := Some ErrNotExist,
                          tempdir_r := (''/root/pod-A/volumes/empty/cache.deleting~042'', None),
                          unmount_r := Some ErrNotExist, refcount_r := ([], 0, None) \<rparr>))
       (EmptyDirectory_GetPath cache1) ''/root/pod-A/volumes/empty/cache.deleting~042'' ()
     = (Some ErrNotExist, ())
   \<and> EmptyDirectory_TearDown
       (logged (stubEnv (all_ok \<lparr> rename_r := Some ErrNotExist,
                          tempdir_r := (''/root/pod-A/volumes/empty/cache.deleting~042'', None),
                          unmount_r := Some ErrNotExist, refcount_r := ([], 0, None) \<rparr>)))
       cache1 ((), [])
     = (Some ErrNotExist, (),
        [Call_TempDir ''/root/pod-A/volumes/empty'' ''cache.deleting~'',
         Call_Rename ''/root/pod-A/volumes/empty/cache''
           ''/root/pod-A/volumes/empty/cache.deleting~042''])
   \<and> GCEPersistentDisk_TearDown
       (logged (stubEnv (all_ok \<lparr> rename_r := Some ErrNotExist,
                          tempdir_r := (''/root/pod-A/volumes/empty/cache.deleting~042'', None),
                          unmount_r := Some ErrNotExist, refcount_r := ([], 0, None) \<rparr>)))
       disk1 ((), [])
     = (Some ErrNotExist, (),
        [Call_RefCount ''/root/pod-B/volumes/gce-pd/data'',
         Call_Unmount ''/root/pod-B/volumes/gce-pd/data'' 0])"
proof -
  let ?tmp = "''/root/pod-A/volumes/empty/cache.deleting~042''"
  let ?E = "stubEnv (all_ok \<lparr> rename_r := Some ErrNotExist, tempdir_r := (?tmp, None),
                             unmount_r := Some ErrNotExist, refcount_r := ([], 0, None) \<rparr>)"
  have h1: "ioutil_TempDir ?E (path_Dir (EmptyDirectory_GetPath cache1))
              (path_Base (EmptyDirectory_GetPath cache1) @ ''.deleting~'') ()
            = ((?tmp, None), ())"
    by (simp add: stub_simps all_ok_def)
  have h2: "os_Rename ?E (EmptyDirectory_GetPath cache1) ?tmp () = (Some ErrNotExist, ())"
    by (simp add: stub_simps all_ok_def)
  have h3: "mounter_RefCount ?E (GCEPersistentDisk_GetPath disk1) () = (([], 0, None), ())"
    by (simp add: stub_simps all_ok_def)
  have h4: "mounter_Unmount ?E (GCEPersistentDisk_GetPath disk1) 0 () = (Some ErrNotExist, ())"
    by (simp add: stub_simps all_ok_def)
  show ?thesis
    using h1 h2 h3 h4
      TearDown_without_SetUp [of ?E cache1 "()" ?tmp "()" ErrNotExist "()" disk1 "[]" 0]
    by (simp add: disk1_paths cache1_paths)
qed



section \<open>GetCurrentVolumes\<close>














text \<open>A pod entry that is not itself a directory is passed over, with all below it.\<close>

lemma GetCurrentVolumes_skips_non_directory:
  "triple_found symlink_tree ''/r'' ''pod-L'' ''empty'' ''cache''
   \<and> \<not> pod_is_dir symlink_tree ''/r'' ''pod-L''
   \<and> GetCurrentVolumes symlink_tree ''/r'' = Map.empty"
  by (simp add: triple_found_def pod_is_dir_def GetCurrentVolumes_def entries_def
        symlink_tree_def dir_def path_Join_def path_Clean_def clean_step_def)






text \<open>
  C10: in a tree that holds both \<open>/r/p/volumes/empty/x\<close> and \<open>/r/p/volumes/gce-pd/x\<close>
  the map has the single key \<open>p/x\<close>. Its value is the \<open>Cleaner\<close> of the kind
  enumerated later, \<open>gce-pd\<close>, which replaced that of \<open>empty\<close>: the empty-directory
  volume on disk has no \<open>Cleaner\<close> in the result.
\<close>

theorem GetCurrentVolumes_collision:
  "triple_scanned collision_tree ''/r'' ''p'' ''empty'' ''x''
   \<and> triple_scanned collision_tree ''/r'' ''p'' ''gce-pd'' ''x''
   \<and> CreateVolumeCleaner ''empty'' ''x'' ''p'' ''/r''
       = Inr (Cleaner_EmptyDirectory \<lparr> ed_Name = ''x'', ed_PodID = ''p'', ed_RootDir = ''/r'' \<rparr>)
   \<and> GetCurrentVolumes collision_tree ''/r'' =
       [''p/x'' \<mapsto> Cleaner_GCEPersistentDisk
          \<lparr> pd_Name = ''x'', pd_PodID = ''p'', pd_RootDir = ''/r'', pd_PDName = [],
            pd_FSType = [], pd_Partition = [], pd_ReadOnly = False \<rparr>]"
  by (simp add: triple_scanned_def GetCurrentVolumes_def entries_def collision_tree_def dir_def
        path_Join_def path_Clean_def clean_step_def CreateVolumeCleaner_def Let_def)


end
